theory Spec2Isabelle
  imports Main "HOL-Library.Sublist"
begin

section \<open>Data model of \<open>demo.py\<close>\<close>

text \<open>
  Python strings are modelled as \<^typ>\<open>string\<close>.  An exception is a value that
  holds what the program can observe of it: the name of its class, its \<open>str(e)\<close>,
  and whether the class derives from \<open>Exception\<close>.  \<open>Exception c t\<close> is an instance
  of a class \<open>c\<close> below \<open>Exception\<close> with text \<open>t\<close>; \<open>BaseException c t\<close> is an
  instance of a class outside \<open>Exception\<close>, such as \<open>KeyboardInterrupt\<close>,
  \<open>SystemExit\<close> or \<open>asyncio.CancelledError\<close>.
\<close>

datatype exn = Exception string string | BaseException string string

text \<open>The test made by \<open>except Exception\<close>, and \<open>str(e)\<close>.\<close>

fun is_Exception :: "exn \<Rightarrow> bool" where
  "is_Exception (Exception c t) = True"
| "is_Exception (BaseException c t) = False"

fun str_exn :: "exn \<Rightarrow> string" where
  "str_exn (Exception c t) = t"
| "str_exn (BaseException c t) = t"

text \<open>The dataclasses and the result model (lines 30 to 53).\<close>

record SearchDataclass =
  max_results :: int
  todays_date :: string

record ToolkitInfo =
  pdf_content :: string
  source :: string

record Deps =
  todays_date :: string

record ResearchResult =
  research_title :: string
  research_main :: string
  research_bullets :: string

text \<open>
  A session message is the dictionary \<open>{"role": r, "content": c}\<close>; the only
  dictionaries the program ever stores have exactly these two string entries
  (line 165), so a message is a record of the two.
\<close>

record message =
  role :: string
  content :: string

text \<open>The two message classes of the agent library that the program constructs.\<close>

datatype Message = UserPrompt string | ModelTextResponse string

text \<open>
  \<open>st.session_state\<close> is a dictionary-like object; the program uses the one key
  \<open>messages\<close>, holding the list of session messages.
\<close>

type_synonym session_state = "string \<rightharpoonup> message list"

section \<open>Session state and message history\<close>

text \<open>Lines 106 to 108.\<close>

definition initialize_chat :: "session_state \<Rightarrow> session_state" where
  "initialize_chat ss =
     (if ''messages'' \<notin> dom ss then ss(''messages'' \<mapsto> []) else ss)"

text \<open>
  Reading \<open>st.session_state.messages\<close>.  For an attribute that was never set the
  session object raises; which exception, with which text, is decided by the
  user-interface library, so \<open>no_attr\<close>, from the attribute's name to the exception
  raised, is a parameter.
\<close>

definition session_messages :: "(string \<Rightarrow> exn) \<Rightarrow> session_state \<Rightarrow> exn + message list" where
  "session_messages no_attr ss =
     (case ss ''messages'' of
        None \<Rightarrow> Inl (no_attr ''messages'')
      | Some ms \<Rightarrow> Inr ms)"

text \<open>
  Lines 115 to 122.  The loop appends to \<open>message_history\<close>; a message whose role
  is neither \<open>user\<close> nor \<open>assistant\<close> takes no branch.
\<close>

fun history_loop :: "Message list \<Rightarrow> message list \<Rightarrow> Message list" where
  "history_loop message_history [] = message_history"
| "history_loop message_history (msg # msgs) =
     (if role msg = ''user''
      then history_loop (message_history @ [UserPrompt (content msg)]) msgs
      else if role msg = ''assistant''
      then history_loop (message_history @ [ModelTextResponse (content msg)]) msgs
      else history_loop message_history msgs)"

definition get_message_history :: "(string \<Rightarrow> exn) \<Rightarrow> session_state \<Rightarrow> exn + Message list" where
  "get_message_history no_attr ss =
     (case session_messages no_attr ss of
        Inl e \<Rightarrow> Inl e
      | Inr msgs \<Rightarrow> Inr (history_loop [] msgs))"

text \<open>
  What the page shows is a list of events, in the order the calls are made: the
  title, a chat message with its role, and the content set on the placeholder
  inside the assistant's chat message, either as markdown or as an error.
  \<open>AgentRun\<close> records the one call the program makes to the agent library,
  with its arguments.  Lines 110 to 113 show the stored messages.
\<close>

record agent_call =
  user_prompt :: string
  call_deps :: Deps
  message_history :: "Message list"

datatype event =
    Title string
  | ChatMessage string string
  | PlaceholderMarkdown string
  | PlaceholderError string
  | AgentRun agent_call

definition display_chat_history :: "(string \<Rightarrow> exn) \<Rightarrow> session_state \<Rightarrow> exn + event list" where
  "display_chat_history no_attr ss =
     (case session_messages no_attr ss of
        Inl e \<Rightarrow> Inl e
      | Inr msgs \<Rightarrow> Inr (map (\<lambda>message. ChatMessage (role message) (content message)) msgs))"


section \<open>The agent and its tools (lines 55 to 103)\<close>

definition nl :: string where
  "nl = [CHR 0x0A]"

definition SYSTEM_PROMPT :: string where
  "SYSTEM_PROMPT =
     ''You are a helpful research assistant and expert in research.'' @ nl @ nl @
     ''You have access to a toolkit of PDFs that you can use to answer the user'' @
       [CHR 0x27] @ ''s question.'' @ nl @
     ''Always call the tool before searching.'' @ nl @ nl @
     ''When given a question, if you need external sources, write strong keywords to do as many '' @ nl @
     ''searches as needed (each with a query_number) and then combine the results. '' @ nl @
     ''Never make up information.'' @ nl @ nl @
     ''Answer in markdown format when needed.''"

text \<open>
  A tool is registered under the name of the decorated function, with the parameters
  that follow \<open>ctx\<close> and the declared return annotation.
\<close>

datatype annotation = PyStr | PyInt | PyAny | PyDict annotation annotation

record Tool =
  tool_name :: string
  ctx_deps :: string
  parameters :: "(string \<times> annotation) list"
  return_annotation :: annotation

record Agent =
  model :: string
  deps_type :: string
  result_type :: string
  system_prompt :: string
  retries :: int
  tools :: "Tool list"

definition Agent_init :: "string \<Rightarrow> string \<Rightarrow> string \<Rightarrow> string \<Rightarrow> int \<Rightarrow> Agent" where
  "Agent_init m d r p n =
     \<lparr>model = m, deps_type = d, result_type = r, system_prompt = p, retries = n, tools = []\<rparr>"

text \<open>The decorator \<open>@search_agent.tool\<close> adds the function to the agent's tools.\<close>

definition tool :: "Tool \<Rightarrow> Agent \<Rightarrow> Agent" where
  "tool f a = a\<lparr>tools := tools a @ [f]\<rparr>"

definition add_toolkit_information_decl :: Tool where
  "add_toolkit_information_decl =
     \<lparr>tool_name = ''add_toolkit_information'', ctx_deps = ''ToolkitInfo'',
      parameters = [(''query'', PyStr)],
      return_annotation = PyDict PyStr PyAny\<rparr>"

definition get_search_decl :: Tool where
  "get_search_decl =
     \<lparr>tool_name = ''get_search'', ctx_deps = ''SearchDataclass'',
      parameters = [(''query'', PyStr), (''query_number'', PyInt)],
      return_annotation = PyDict PyStr PyAny\<rparr>"

text \<open>The agent as lines 67 to 73 construct it, and with its two tools added.\<close>

definition search_agent_0 :: Agent where
  "search_agent_0 = Agent_init ''openai:gpt-4'' ''Deps'' ''ResearchResult'' SYSTEM_PROMPT 5"

definition search_agent :: Agent where
  "search_agent = tool get_search_decl (tool add_toolkit_information_decl search_agent_0)"

text \<open>
  Lines 76 to 90.  The document reader, the index and the query engine are external;
  each may raise.  The function prints the response and returns it as it is.  The
  first component of the result is what was printed.
\<close>

definition add_toolkit_information ::
  "(string \<Rightarrow> exn + 'docs) \<Rightarrow> ('docs \<Rightarrow> exn + 'index) \<Rightarrow> ('index \<Rightarrow> string \<Rightarrow> exn + 'resp) \<Rightarrow>
   ('resp \<Rightarrow> string) \<Rightarrow> 'ctx \<Rightarrow> string \<Rightarrow> string list \<times> (exn + 'resp)" where
  "add_toolkit_information load_data from_documents engine_query str_response ctx query =
     (case load_data ''custom_data'' of
        Inl e \<Rightarrow> ([], Inl e)
      | Inr documents \<Rightarrow>
          (case from_documents documents of
             Inl e \<Rightarrow> ([], Inl e)
           | Inr index \<Rightarrow>
               (case engine_query index query of
                  Inl e \<Rightarrow> ([], Inl e)
                | Inr response \<Rightarrow> ([str_response response], Inr response))))"

text \<open>\<open>str\<close> of a Python integer: decimal digits, with a minus sign when negative.\<close>

function str_nat :: "nat \<Rightarrow> string" where
  "str_nat n =
     (if n < 10 then [char_of (48 + n)]
      else str_nat (n div 10) @ [char_of (48 + n mod 10)])"
  by pat_completeness auto
termination
  by (relation "measure (\<lambda>n. n)") auto

definition str_int :: "int \<Rightarrow> string" where
  "str_int i = (if i < 0 then CHR ''-'' # str_nat (nat (- i)) else str_nat (nat i))"

text \<open>
  Lines 92 to 103.  \<open>get_search_context\<close> is the method of the search client, taking
  the query and \<open>max_results\<close>; what it returns is returned as it is.
\<close>

definition get_search ::
  "(string \<Rightarrow> int \<Rightarrow> exn + 'r) \<Rightarrow> 'ctx \<Rightarrow> string \<Rightarrow> int \<Rightarrow> string list \<times> (exn + 'r)" where
  "get_search get_search_context ctx query query_number =
     ([''Search query '' @ str_int query_number @ '': '' @ query],
      get_search_context query 3)"

section \<open>The result model as a validator\<close>

text \<open>
  \<open>ResearchResult\<close> declares three required fields of type \<open>str\<close> and nothing else:
  no default, no length bound, no validator.  A payload is a JSON object; it
  validates when each of the three keys holds a JSON string, and the result carries
  the three strings.
\<close>

datatype json =
    JNull
  | JBool bool
  | JNumber int
  | JString string
  | JArray "json list"
  | JObject "(string \<times> json) list"

definition str_field :: "(string \<rightharpoonup> json) \<Rightarrow> string \<Rightarrow> string option" where
  "str_field payload k =
     (case payload k of Some (JString s) \<Rightarrow> Some s | _ \<Rightarrow> None)"

definition ResearchResult_validate :: "(string \<rightharpoonup> json) \<Rightarrow> ResearchResult option" where
  "ResearchResult_validate payload =
     (case str_field payload ''research_title'' of
        None \<Rightarrow> None
      | Some t \<Rightarrow>
          (case str_field payload ''research_main'' of
             None \<Rightarrow> None
           | Some m \<Rightarrow>
               (case str_field payload ''research_bullets'' of
                  None \<Rightarrow> None
                | Some b \<Rightarrow>
                    Some \<lparr>research_title = t, research_main = m, research_bullets = b\<rparr>)))"

section \<open>The page (lines 124 to 174)\<close>

text \<open>The object the agent run returns; the program reads its \<open>data\<close>.\<close>

record RunResult =
  data :: ResearchResult

text \<open>
  Lines 159 to 163: each part is added to \<open>full_response\<close> and the placeholder is
  set to the text so far.  The pause between two parts changes nothing that is shown.
\<close>

fun stream_loop :: "string \<Rightarrow> string list \<Rightarrow> string \<times> event list" where
  "stream_loop full_response [] = (full_response, [])"
| "stream_loop full_response (part # parts) =
     (let full_response' = full_response @ part;
          (final, shown) = stream_loop full_response' parts
      in (final, PlaceholderMarkdown full_response' # shown))"

text \<open>Lines 165 to 168: \<open>st.session_state.messages.extend(new)\<close>.\<close>

definition session_extend ::
  "(string \<Rightarrow> exn) \<Rightarrow> session_state \<Rightarrow> message list \<Rightarrow> exn + session_state" where
  "session_extend no_attr ss new =
     (case session_messages no_attr ss of
        Inl e \<Rightarrow> Inl e
      | Inr msgs \<Rightarrow> Inr (ss(''messages'' \<mapsto> msgs @ new)))"

text \<open>
  The body of the \<open>try\<close> statement, lines 138 to 168.  \<open>agent_run\<close> is the agent
  library's \<open>search_agent.run\<close>; \<open>today\<close> is the current date already formatted
  as year, month and day.  The result is the session state, what was shown, and
  the exception if one was raised.
\<close>

definition try_body ::
  "(string \<Rightarrow> exn) \<Rightarrow> (agent_call \<Rightarrow> exn + RunResult) \<Rightarrow> string \<Rightarrow> string \<Rightarrow>
   session_state \<Rightarrow> session_state \<times> event list \<times> exn option" where
  "try_body no_attr agent_run today prompt ss =
     (let deps = \<lparr>todays_date = today\<rparr> in
      case get_message_history no_attr ss of
        Inl e \<Rightarrow> (ss, [], Some e)
      | Inr history \<Rightarrow>
          (let call = \<lparr>user_prompt = prompt, call_deps = deps, message_history = history\<rparr> in
           case agent_run call of
             Inl e \<Rightarrow> (ss, [AgentRun call], Some e)
           | Inr result \<Rightarrow>
               (let response_parts =
                      [research_title (data result), nl @ nl,
                       research_main (data result), nl @ nl,
                       research_bullets (data result)];
                    (full_response, shown) = stream_loop [] response_parts
                in case session_extend no_attr ss
                          [\<lparr>role = ''user'', content = prompt\<rparr>,
                           \<lparr>role = ''assistant'', content = full_response\<rparr>] of
                     Inl e \<Rightarrow> (ss, AgentRun call # shown, Some e)
                   | Inr ss' \<Rightarrow> (ss', AgentRun call # shown, None))))"

text \<open>
  \<open>main\<close>.  \<open>chat_input\<close> is what \<open>st.chat_input\<close> returns: nothing, or the text the
  user sent; the empty text is false in the condition of line 129.  The handler of
  line 170 is \<open>except Exception\<close>: it catches an exception whose class derives from
  \<open>Exception\<close> and shows its text; any other exception leaves \<open>main\<close>.  The result
  is the session state, what was shown, and the exception that left \<open>main\<close>, if
  one did.
\<close>

definition main ::
  "(string \<Rightarrow> exn) \<Rightarrow> (agent_call \<Rightarrow> exn + RunResult) \<Rightarrow> string \<Rightarrow> string option \<Rightarrow>
   session_state \<Rightarrow> session_state \<times> event list \<times> exn option" where
  "main no_attr agent_run today chat_input ss0 =
     (let ss = initialize_chat ss0 in
      case display_chat_history no_attr ss of
        Inl e \<Rightarrow> (ss, [Title ''Research Assistant''], Some e)
      | Inr shown_history \<Rightarrow>
          (let page = Title ''Research Assistant'' # shown_history in
           case chat_input of
             None \<Rightarrow> (ss, page, None)
           | Some prompt \<Rightarrow>
               if prompt = [] then (ss, page, None)
               else
                 (let page' = page @ [ChatMessage ''user'' prompt,
                                      PlaceholderMarkdown ''Starting research...'']
                  in case try_body no_attr agent_run today prompt ss of
                       (ss', shown, None) \<Rightarrow> (ss', page' @ shown, None)
                     | (ss', shown, Some e) \<Rightarrow>
                         if is_Exception e
                         then (ss', page' @ shown @
                                 [PlaceholderError (''An error occurred: '' @ str_exn e)],
                               None)
                         else (ss', page' @ shown, Some e))))"

section \<open>The script from its first line (lines 25 to 27, 67 and 174)\<close>




section \<open>The result shapes named by the specification\<close>

text \<open>
  The result shapes of the two tools as the specification words them, to compare
  with what the tools return: an object with string entries \<open>content\<close> and
  \<open>source\<close>, and an object whose entry \<open>results\<close> is a list of objects with string
  entries \<open>source\<close> and \<open>content\<close>.
\<close>

definition spec_content_source :: "json \<Rightarrow> bool" where
  "spec_content_source j =
     (case j of
        JObject kvs \<Rightarrow>
          (case map_of kvs ''content'' of
             Some (JString c) \<Rightarrow>
               (case map_of kvs ''source'' of Some (JString s) \<Rightarrow> True | _ \<Rightarrow> False)
           | _ \<Rightarrow> False)
      | _ \<Rightarrow> False)"

definition spec_results_list :: "json \<Rightarrow> bool" where
  "spec_results_list j =
     (case j of
        JObject kvs \<Rightarrow>
          (case map_of kvs ''results'' of
             Some (JArray rs) \<Rightarrow> list_all spec_content_source rs
           | _ \<Rightarrow> False)
      | _ \<Rightarrow> False)"

section \<open>Sample inputs\<close>

text \<open>Concrete sessions, agents and payloads on which the properties are evaluated.\<close>

definition two_turns :: "message list" where
  "two_turns =
     [\<lparr>role = ''user'', content = ''hi''\<rparr>, \<lparr>role = ''assistant'', content = ''hello''\<rparr>]"

definition mixed_roles :: "message list" where
  "mixed_roles =
     [\<lparr>role = ''user'', content = ''hi''\<rparr>, \<lparr>role = ''system'', content = ''be brief''\<rparr>,
      \<lparr>role = ''assistant'', content = ''hello''\<rparr>]"

definition empty_result :: ResearchResult where
  "empty_result = \<lparr>research_title = [], research_main = [], research_bullets = []\<rparr>"

definition empty_payload :: "string \<rightharpoonup> json" where
  "empty_payload =
     [''research_title'' \<mapsto> JString [], ''research_main'' \<mapsto> JString [],
      ''research_bullets'' \<mapsto> JString []]"

definition empty_agent :: "agent_call \<Rightarrow> exn + RunResult" where
  "empty_agent c = Inr \<lparr>data = empty_result\<rparr>"

definition paris_result :: ResearchResult where
  "paris_result =
     \<lparr>research_title = ''# France'', research_main = ''Paris'',
      research_bullets = ''- Paris''\<rparr>"

definition paris_payload :: "string \<rightharpoonup> json" where
  "paris_payload =
     [''research_title'' \<mapsto> JString ''# France'', ''research_main'' \<mapsto> JString ''Paris'',
      ''research_bullets'' \<mapsto> JString ''- Paris'']"

definition paris_agent :: "agent_call \<Rightarrow> exn + RunResult" where
  "paris_agent c = Inr \<lparr>data = paris_result\<rparr>"

definition failing_agent :: "agent_call \<Rightarrow> exn + RunResult" where
  "failing_agent c = Inl (Exception ''ConnectionError'' ''connection refused'')"

definition interrupted_agent :: "agent_call \<Rightarrow> exn + RunResult" where
  "interrupted_agent c = Inl (BaseException ''KeyboardInterrupt'' [])"

text \<open>An agent whose answer repeats the prompt and the history it was given.\<close>

fun Message_content :: "Message \<Rightarrow> string" where
  "Message_content (UserPrompt c) = c"
| "Message_content (ModelTextResponse c) = c"

definition echo_agent :: "agent_call \<Rightarrow> exn + RunResult" where
  "echo_agent c =
     Inr \<lparr>data = \<lparr>research_title = user_prompt c,
                 research_main = concat (map Message_content (message_history c)),
                 research_bullets = []\<rparr>\<rparr>"

definition attribute_error :: "string \<Rightarrow> exn" where
  "attribute_error name = Exception ''AttributeError'' name"



text \<open>
  A document reader, an index and a query engine whose response is a plain text,
  and a search client whose answer is a plain text.
\<close>

definition text_reader :: "string \<Rightarrow> exn + string list" where
  "text_reader path = Inr [''Paris is the capital of France.'']"

definition text_index :: "string list \<Rightarrow> exn + string list" where
  "text_index documents = Inr documents"

definition text_engine :: "string list \<Rightarrow> string \<Rightarrow> exn + json" where
  "text_engine index query = Inr (JString (concat index))"

definition json_text :: "json \<Rightarrow> string" where
  "json_text j = (case j of JString s \<Rightarrow> s | _ \<Rightarrow> [])"

definition text_search :: "string \<Rightarrow> int \<Rightarrow> exn + json" where
  "text_search query n = Inr (JString ''Paris - example.org'')"

text \<open>A search provider that answers with four results whatever number is asked for.\<close>

definition four_results :: "string \<Rightarrow> int \<Rightarrow> exn + (string \<times> string) list" where
  "four_results query n = Inr (replicate 4 (''example.org'', query))"

section \<open>Properties\<close>

subsection \<open>Supporting lemmas\<close>

lemma history_loop_acc:
  "history_loop acc ms =
     acc @ map (\<lambda>m. if role m = ''user'' then UserPrompt (content m)
                     else ModelTextResponse (content m))
             (filter (\<lambda>m. role m = ''user'' \<or> role m = ''assistant'') ms)"
  by (induction ms arbitrary: acc) simp_all

text \<open>After \<open>initialize_chat\<close> the message list can always be read.\<close>

lemma session_messages_initialize_chat:
  "session_messages no_attr (initialize_chat ss) =
     Inr (case ss ''messages'' of None \<Rightarrow> [] | Some ms \<Rightarrow> ms)"
  by (auto simp: initialize_chat_def session_messages_def split: option.splits)

text \<open>The streaming loop ends with the concatenation, and shows only prefixes of it.\<close>

lemma stream_loop_final: "fst (stream_loop acc ps) = acc @ concat ps"
  by (induction ps arbitrary: acc) (simp_all add: Let_def case_prod_beta)

lemma stream_loop_prefix:
  "PlaceholderMarkdown f \<in> set (snd (stream_loop acc ps)) \<Longrightarrow>
   prefix acc f \<and> prefix f (fst (stream_loop acc ps))"
proof (induction ps arbitrary: acc)
  case Nil
  then show ?case by simp
next
  case (Cons p ps)
  from Cons.prems
  have "f = acc @ p \<or> PlaceholderMarkdown f \<in> set (snd (stream_loop (acc @ p) ps))"
    by (simp add: Let_def case_prod_beta)
  then show ?case
  proof
    assume "f = acc @ p"
    then show ?thesis by (simp add: Let_def case_prod_beta stream_loop_final)
  next
    assume "PlaceholderMarkdown f \<in> set (snd (stream_loop (acc @ p) ps))"
    from Cons.IH[OF this] show ?thesis
      by (auto simp: Let_def case_prod_beta elim: prefixE)
  qed
qed

lemma stream_loop_five:
  "stream_loop [] [a, b, c, d, e] =
     (a @ b @ c @ d @ e,
      [PlaceholderMarkdown a, PlaceholderMarkdown (a @ b), PlaceholderMarkdown (a @ b @ c),
       PlaceholderMarkdown (a @ b @ c @ d), PlaceholderMarkdown (a @ b @ c @ d @ e)])"
  by (simp add: Let_def)

text \<open>
  Whatever raises inside the \<open>try\<close> statement, the session state that comes out
  of it is the one that went in.
\<close>

lemma try_body_raise_keeps_state:
  "try_body no_attr agent_run today prompt ss = (ss', shown, Some e) \<Longrightarrow> ss' = ss"
  by (auto simp: try_body_def Let_def split: sum.splits prod.splits)

lemma try_body_agent_raises:
  assumes "session_messages no_attr ss = Inr ms"
      and "agent_run \<lparr>user_prompt = prompt, call_deps = \<lparr>todays_date = today\<rparr>,
                      message_history = history_loop [] ms\<rparr> = Inl e"
  shows "try_body no_attr agent_run today prompt ss =
           (ss, [AgentRun \<lparr>user_prompt = prompt, call_deps = \<lparr>todays_date = today\<rparr>,
                           message_history = history_loop [] ms\<rparr>], Some e)"
  using assms by (simp add: try_body_def get_message_history_def)

lemma try_body_agent_returns:
  assumes "session_messages no_attr ss = Inr ms"
      and "agent_run \<lparr>user_prompt = prompt, call_deps = \<lparr>todays_date = today\<rparr>,
                      message_history = history_loop [] ms\<rparr> = Inr result"
  shows "try_body no_attr agent_run today prompt ss =
           (ss(''messages'' \<mapsto> ms @
                [\<lparr>role = ''user'', content = prompt\<rparr>,
                 \<lparr>role = ''assistant'',
                  content = research_title (data result) @ nl @ nl @
                            research_main (data result) @ nl @ nl @
                            research_bullets (data result)\<rparr>]),
            [AgentRun \<lparr>user_prompt = prompt, call_deps = \<lparr>todays_date = today\<rparr>,
                       message_history = history_loop [] ms\<rparr>,
             PlaceholderMarkdown (research_title (data result)),
             PlaceholderMarkdown (research_title (data result) @ nl @ nl),
             PlaceholderMarkdown (research_title (data result) @ nl @ nl @
                                  research_main (data result)),
             PlaceholderMarkdown (research_title (data result) @ nl @ nl @
                                  research_main (data result) @ nl @ nl),
             PlaceholderMarkdown (research_title (data result) @ nl @ nl @
                                  research_main (data result) @ nl @ nl @
                                  research_bullets (data result))],
            None)"
  using assms
  by (simp add: try_body_def get_message_history_def session_extend_def stream_loop_five
           del: stream_loop.simps)

text \<open>
  An exception leaves \<open>main\<close> only if its class is outside \<open>Exception\<close>, and then
  the session state is the one the turn started from.
\<close>

lemma main_raises_only_outside_Exception:
  assumes "main no_attr agent_run today chat_input ss = (ss', shown, Some e)"
  shows "\<not> is_Exception e \<and> ss' = initialize_chat ss"
proof -
  obtain s sh r where tb:
    "try_body no_attr agent_run today (the chat_input) (initialize_chat ss) = (s, sh, r)"
    by (metis prod_cases3)
  have keep: "r \<noteq> None \<Longrightarrow> s = initialize_chat ss"
    using tb try_body_raise_keeps_state by fastforce
  show ?thesis
    using assms tb keep
    by (auto simp: main_def Let_def display_chat_history_def session_messages_initialize_chat
             split: option.splits if_splits)
qed

subsection \<open>The result model\<close>

text \<open>
  C2, as stated, fails.  The payload whose three fields are all the empty string
  validates against \<open>ResearchResult\<close>; an agent run that returns it on an empty
  transcript is rendered and stored like any other, the stored assistant content
  being the two separators alone.
\<close>

theorem all_empty_result_is_returned:
  "ResearchResult_validate empty_payload = Some empty_result \<and>
   research_title empty_result = [] \<and> research_main empty_result = [] \<and>
   research_bullets empty_result = [] \<and>
   main attribute_error empty_agent ''2024-01-01'' (Some ''q'') Map.empty =
     ([''messages'' \<mapsto> [\<lparr>role = ''user'', content = ''q''\<rparr>,
                          \<lparr>role = ''assistant'', content = nl @ nl @ nl @ nl\<rparr>]],
      [Title ''Research Assistant'', ChatMessage ''user'' ''q'',
       PlaceholderMarkdown ''Starting research...'',
       AgentRun \<lparr>user_prompt = ''q'', call_deps = \<lparr>todays_date = ''2024-01-01''\<rparr>,
                 message_history = []\<rparr>,
       PlaceholderMarkdown [], PlaceholderMarkdown (nl @ nl), PlaceholderMarkdown (nl @ nl),
       PlaceholderMarkdown (nl @ nl @ nl @ nl), PlaceholderMarkdown (nl @ nl @ nl @ nl)],
      None)"
  by (simp add: ResearchResult_validate_def str_field_def empty_payload_def empty_result_def
        main_def initialize_chat_def display_chat_history_def session_messages_def try_body_def
        get_message_history_def empty_agent_def session_extend_def Let_def)

text \<open>
  C2, amended.  A payload is accepted as a \<open>ResearchResult\<close> exactly when its three
  fields are present and are strings, and the result carries these strings as they
  are; nothing asks any of them, the body included, to be non-empty.
\<close>

theorem ResearchResult_validate_iff:
  "ResearchResult_validate payload = Some r \<longleftrightarrow>
     payload ''research_title'' = Some (JString (research_title r)) \<and>
     payload ''research_main'' = Some (JString (research_main r)) \<and>
     payload ''research_bullets'' = Some (JString (research_bullets r))"
  by (cases r)
     (auto simp: ResearchResult_validate_def str_field_def split: option.splits json.splits)

theorem ResearchResult_validate_iff_witness:
  "paris_payload ''research_title'' = Some (JString (research_title paris_result)) \<and>
   paris_payload ''research_main'' = Some (JString (research_main paris_result)) \<and>
   paris_payload ''research_bullets'' = Some (JString (research_bullets paris_result)) \<and>
   ResearchResult_validate paris_payload = Some paris_result"
  using ResearchResult_validate_iff [of paris_payload paris_result]
  by (simp add: paris_payload_def paris_result_def)

subsection \<open>A turn of the chat\<close>

text \<open>
  C3, as stated, fails for an exception whose class is outside \<open>Exception\<close>.  When
  the agent run is interrupted, the transcript is left as it was, but no error
  message is rendered: the exception leaves \<open>main\<close>.
\<close>

theorem interrupted_run_shows_no_error:
  "main attribute_error interrupted_agent ''2024-01-01'' (Some ''q'')
        [''messages'' \<mapsto> two_turns] =
     ([''messages'' \<mapsto> two_turns],
      [Title ''Research Assistant'', ChatMessage ''user'' ''hi'',
       ChatMessage ''assistant'' ''hello'', ChatMessage ''user'' ''q'',
       PlaceholderMarkdown ''Starting research...'',
       AgentRun \<lparr>user_prompt = ''q'', call_deps = \<lparr>todays_date = ''2024-01-01''\<rparr>,
                 message_history = [UserPrompt ''hi'', ModelTextResponse ''hello'']\<rparr>],
      Some (BaseException ''KeyboardInterrupt'' []))"
  by (simp add: main_def initialize_chat_def display_chat_history_def session_messages_def
        try_body_def get_message_history_def interrupted_agent_def two_turns_def)

text \<open>
  C3, amended.  Atomicity on failure.  When the agent run raises, the session state
  is left as it was when the run started (after \<open>initialize_chat\<close>): neither the
  user turn nor an assistant turn is appended.  If the exception's class derives
  from \<open>Exception\<close>, the last thing shown is the error message on the placeholder
  and \<open>main\<close> returns; otherwise nothing more is shown and the exception leaves
  \<open>main\<close>.
\<close>

theorem failed_run_leaves_transcript_unchanged:
  assumes "prompt \<noteq> []"
      and "session_messages no_attr (initialize_chat ss) = Inr ms"
      and "agent_run \<lparr>user_prompt = prompt, call_deps = \<lparr>todays_date = today\<rparr>,
                      message_history = history_loop [] ms\<rparr> = Inl e"
  shows "main no_attr agent_run today (Some prompt) ss =
           (initialize_chat ss,
            Title ''Research Assistant'' #
            map (\<lambda>m. ChatMessage (role m) (content m)) ms @
            [ChatMessage ''user'' prompt,
             PlaceholderMarkdown ''Starting research...'',
             AgentRun \<lparr>user_prompt = prompt, call_deps = \<lparr>todays_date = today\<rparr>,
                       message_history = history_loop [] ms\<rparr>] @
            (if is_Exception e
             then [PlaceholderError (''An error occurred: '' @ str_exn e)] else []),
            if is_Exception e then None else Some e)"
  using assms
  by (simp add: main_def display_chat_history_def try_body_agent_raises)

theorem failed_run_leaves_transcript_unchanged_witness:
  "''q'' \<noteq> [] \<and>
   session_messages attribute_error (initialize_chat [''messages'' \<mapsto> two_turns]) =
     Inr two_turns \<and>
   failing_agent \<lparr>user_prompt = ''q'', call_deps = \<lparr>todays_date = ''2024-01-01''\<rparr>,
                  message_history = history_loop [] two_turns\<rparr> =
     Inl (Exception ''ConnectionError'' ''connection refused'') \<and>
   main attribute_error failing_agent ''2024-01-01'' (Some ''q'')
        [''messages'' \<mapsto> two_turns] =
     ([''messages'' \<mapsto> two_turns],
      [Title ''Research Assistant'', ChatMessage ''user'' ''hi'',
       ChatMessage ''assistant'' ''hello'', ChatMessage ''user'' ''q'',
       PlaceholderMarkdown ''Starting research...'',
       AgentRun \<lparr>user_prompt = ''q'', call_deps = \<lparr>todays_date = ''2024-01-01''\<rparr>,
                 message_history = [UserPrompt ''hi'', ModelTextResponse ''hello'']\<rparr>,
       PlaceholderError ''An error occurred: connection refused''],
      None)"
proof -
  have h1: "''q'' \<noteq> []" by simp
  have h2: "session_messages attribute_error (initialize_chat [''messages'' \<mapsto> two_turns]) =
              Inr two_turns"
    by (simp add: session_messages_initialize_chat)
  have h3: "failing_agent \<lparr>user_prompt = ''q'', call_deps = \<lparr>todays_date = ''2024-01-01''\<rparr>,
                           message_history = history_loop [] two_turns\<rparr> =
              Inl (Exception ''ConnectionError'' ''connection refused'')"
    by (simp add: failing_agent_def)
  show ?thesis
    using failed_run_leaves_transcript_unchanged
            [where agent_run = failing_agent and no_attr = attribute_error, OF h1 h2 h3]
          h1 h2 h3
    by (simp add: two_turns_def initialize_chat_def)
qed

text \<open>
  C4.  For a successful run the placeholder shows, one after the other, the title,
  then title and blank line, then these and the body, then these and a second blank
  line, then these and the bullets: each is a prefix of the next and the last is
  the whole text.  Exactly one user message and one assistant message are appended
  to the transcript, the assistant's content being that whole text.
\<close>

theorem successful_run_streams_and_appends:
  assumes "prompt \<noteq> []"
      and "session_messages no_attr (initialize_chat ss) = Inr ms"
      and "agent_run \<lparr>user_prompt = prompt, call_deps = \<lparr>todays_date = today\<rparr>,
                      message_history = history_loop [] ms\<rparr> = Inr result"
  shows "main no_attr agent_run today (Some prompt) ss =
           ((initialize_chat ss)(''messages'' \<mapsto> ms @
              [\<lparr>role = ''user'', content = prompt\<rparr>,
               \<lparr>role = ''assistant'',
                content = research_title (data result) @ nl @ nl @
                          research_main (data result) @ nl @ nl @
                          research_bullets (data result)\<rparr>]),
            Title ''Research Assistant'' #
            map (\<lambda>m. ChatMessage (role m) (content m)) ms @
            [ChatMessage ''user'' prompt,
             PlaceholderMarkdown ''Starting research...'',
             AgentRun \<lparr>user_prompt = prompt, call_deps = \<lparr>todays_date = today\<rparr>,
                       message_history = history_loop [] ms\<rparr>,
             PlaceholderMarkdown (research_title (data result)),
             PlaceholderMarkdown (research_title (data result) @ nl @ nl),
             PlaceholderMarkdown (research_title (data result) @ nl @ nl @
                                  research_main (data result)),
             PlaceholderMarkdown (research_title (data result) @ nl @ nl @
                                  research_main (data result) @ nl @ nl),
             PlaceholderMarkdown (research_title (data result) @ nl @ nl @
                                  research_main (data result) @ nl @ nl @
                                  research_bullets (data result))],
            None)"
  using assms
  by (simp add: main_def display_chat_history_def try_body_agent_returns)

theorem successful_run_streams_and_appends_witness:
  "''capital of France?'' \<noteq> [] \<and>
   session_messages attribute_error (initialize_chat Map.empty) = Inr [] \<and>
   paris_agent \<lparr>user_prompt = ''capital of France?'',
                call_deps = \<lparr>todays_date = ''2024-01-01''\<rparr>,
                message_history = history_loop [] []\<rparr> = Inr \<lparr>data = paris_result\<rparr> \<and>
   main attribute_error paris_agent ''2024-01-01'' (Some ''capital of France?'') Map.empty =
     ([''messages'' \<mapsto>
         [\<lparr>role = ''user'', content = ''capital of France?''\<rparr>,
          \<lparr>role = ''assistant'',
           content = ''# France'' @ nl @ nl @ ''Paris'' @ nl @ nl @ ''- Paris''\<rparr>]],
      [Title ''Research Assistant'', ChatMessage ''user'' ''capital of France?'',
       PlaceholderMarkdown ''Starting research...'',
       AgentRun \<lparr>user_prompt = ''capital of France?'',
                 call_deps = \<lparr>todays_date = ''2024-01-01''\<rparr>, message_history = []\<rparr>,
       PlaceholderMarkdown ''# France'',
       PlaceholderMarkdown (''# France'' @ nl @ nl),
       PlaceholderMarkdown (''# France'' @ nl @ nl @ ''Paris''),
       PlaceholderMarkdown (''# France'' @ nl @ nl @ ''Paris'' @ nl @ nl),
       PlaceholderMarkdown (''# France'' @ nl @ nl @ ''Paris'' @ nl @ nl @ ''- Paris'')],
      None)"
proof -
  have h1: "''capital of France?'' \<noteq> []" by simp
  have h2: "session_messages attribute_error (initialize_chat Map.empty) = Inr []"
    by (simp add: session_messages_initialize_chat)
  have h3: "paris_agent \<lparr>user_prompt = ''capital of France?'',
                         call_deps = \<lparr>todays_date = ''2024-01-01''\<rparr>,
                         message_history = history_loop [] []\<rparr> = Inr \<lparr>data = paris_result\<rparr>"
    by (simp add: paris_agent_def)
  show ?thesis
    using successful_run_streams_and_appends
            [where agent_run = paris_agent and no_attr = attribute_error, OF h1 h2 h3]
          h1 h2 h3
    by (simp add: paris_result_def initialize_chat_def)
qed

text \<open>
  C7.  For every transcript of user and assistant turns there is a message history
  that replays it, one entry for each stored turn, in the same order, a user turn
  as a \<open>UserPrompt\<close> and an assistant turn as a \<open>ModelTextResponse\<close> of the same
  content, and the outcome of the turn is the one that the agent's answer to the
  call carrying this history decides: what the agent returns on that call is what
  is streamed and stored, and what it raises there is what is reported.
\<close>

theorem transcript_replayed_as_context:
  assumes "ss ''messages'' = Some ms"
      and "\<forall>m\<in>set ms. role m = ''user'' \<or> role m = ''assistant''"
      and "prompt \<noteq> []"
  shows "\<exists>h. list_all2 (\<lambda>m x. (role m = ''user'' \<and> x = UserPrompt (content m)) \<or>
                              (role m = ''assistant'' \<and> x = ModelTextResponse (content m)))
                       ms h \<and>
           main no_attr agent_run today (Some prompt) ss =
             (case agent_run \<lparr>user_prompt = prompt, call_deps = \<lparr>todays_date = today\<rparr>,
                              message_history = h\<rparr> of
                Inl e \<Rightarrow>
                  (ss,
                   Title ''Research Assistant'' #
                   map (\<lambda>m. ChatMessage (role m) (content m)) ms @
                   [ChatMessage ''user'' prompt,
                    PlaceholderMarkdown ''Starting research...'',
                    AgentRun \<lparr>user_prompt = prompt, call_deps = \<lparr>todays_date = today\<rparr>,
                              message_history = h\<rparr>] @
                   (if is_Exception e
                    then [PlaceholderError (''An error occurred: '' @ str_exn e)] else []),
                   if is_Exception e then None else Some e)
              | Inr result \<Rightarrow>
                  (ss(''messages'' \<mapsto> ms @
                     [\<lparr>role = ''user'', content = prompt\<rparr>,
                      \<lparr>role = ''assistant'',
                       content = research_title (data result) @ nl @ nl @
                                 research_main (data result) @ nl @ nl @
                                 research_bullets (data result)\<rparr>]),
                   Title ''Research Assistant'' #
                   map (\<lambda>m. ChatMessage (role m) (content m)) ms @
                   [ChatMessage ''user'' prompt,
                    PlaceholderMarkdown ''Starting research...'',
                    AgentRun \<lparr>user_prompt = prompt, call_deps = \<lparr>todays_date = today\<rparr>,
                              message_history = h\<rparr>,
                    PlaceholderMarkdown (research_title (data result)),
                    PlaceholderMarkdown (research_title (data result) @ nl @ nl),
                    PlaceholderMarkdown (research_title (data result) @ nl @ nl @
                                         research_main (data result)),
                    PlaceholderMarkdown (research_title (data result) @ nl @ nl @
                                         research_main (data result) @ nl @ nl),
                    PlaceholderMarkdown (research_title (data result) @ nl @ nl @
                                         research_main (data result) @ nl @ nl @
                                         research_bullets (data result))],
                   None))"
proof -
  let ?h = "history_loop [] ms"
  have init: "initialize_chat ss = ss"
    using assms(1) by (auto simp: initialize_chat_def)
  have msgs: "session_messages no_attr ss = Inr ms"
    using assms(1) by (simp add: session_messages_def)
  have keep: "filter (\<lambda>m. role m = ''user'' \<or> role m = ''assistant'') ms = ms"
    using assms(2) by (simp add: filter_id_conv)
  have rel: "list_all2 (\<lambda>m x. (role m = ''user'' \<and> x = UserPrompt (content m)) \<or>
                              (role m = ''assistant'' \<and> x = ModelTextResponse (content m)))
                       ms ?h"
    using assms(2) by (auto simp: history_loop_acc keep list_all2_map2 list_all2_same)
  have run: "main no_attr agent_run today (Some prompt) ss =
               (case try_body no_attr agent_run today prompt ss of
                  (ss', shown, None) \<Rightarrow>
                    (ss', Title ''Research Assistant'' #
                          map (\<lambda>m. ChatMessage (role m) (content m)) ms @
                          [ChatMessage ''user'' prompt,
                           PlaceholderMarkdown ''Starting research...''] @ shown, None)
                | (ss', shown, Some e) \<Rightarrow>
                    if is_Exception e
                    then (ss', Title ''Research Assistant'' #
                               map (\<lambda>m. ChatMessage (role m) (content m)) ms @
                               [ChatMessage ''user'' prompt,
                                PlaceholderMarkdown ''Starting research...''] @ shown @
                               [PlaceholderError (''An error occurred: '' @ str_exn e)], None)
                    else (ss', Title ''Research Assistant'' #
                               map (\<lambda>m. ChatMessage (role m) (content m)) ms @
                               [ChatMessage ''user'' prompt,
                                PlaceholderMarkdown ''Starting research...''] @ shown, Some e))"
    using assms(3) msgs
    by (simp add: main_def init display_chat_history_def split: prod.splits option.splits)
  show ?thesis
  proof (cases "agent_run \<lparr>user_prompt = prompt, call_deps = \<lparr>todays_date = today\<rparr>,
                            message_history = ?h\<rparr>")
    case (Inl e)
    show ?thesis
      using rel Inl
      by (intro exI[of _ ?h]) (simp add: run try_body_agent_raises [where agent_run = agent_run, OF msgs Inl])
  next
    case (Inr result)
    show ?thesis
      using rel Inr
      by (intro exI[of _ ?h]) (simp add: run try_body_agent_returns [where agent_run = agent_run, OF msgs Inr])
  qed
qed

theorem transcript_replayed_as_context_witness:
  "[''messages'' \<mapsto> two_turns] ''messages'' = Some two_turns \<and>
   map role two_turns = [''user'', ''assistant''] \<and>
   ''and then?'' \<noteq> [] \<and>
   main attribute_error echo_agent ''2024-01-01'' (Some ''and then?'')
        [''messages'' \<mapsto> two_turns] =
     ([''messages'' \<mapsto>
         [\<lparr>role = ''user'', content = ''hi''\<rparr>, \<lparr>role = ''assistant'', content = ''hello''\<rparr>,
          \<lparr>role = ''user'', content = ''and then?''\<rparr>,
          \<lparr>role = ''assistant'', content = ''and then?'' @ nl @ nl @ ''hihello'' @ nl @ nl\<rparr>]],
      [Title ''Research Assistant'', ChatMessage ''user'' ''hi'',
       ChatMessage ''assistant'' ''hello'', ChatMessage ''user'' ''and then?'',
       PlaceholderMarkdown ''Starting research...'',
       AgentRun \<lparr>user_prompt = ''and then?'', call_deps = \<lparr>todays_date = ''2024-01-01''\<rparr>,
                 message_history = [UserPrompt ''hi'', ModelTextResponse ''hello'']\<rparr>,
       PlaceholderMarkdown ''and then?'',
       PlaceholderMarkdown (''and then?'' @ nl @ nl),
       PlaceholderMarkdown (''and then?'' @ nl @ nl @ ''hihello''),
       PlaceholderMarkdown (''and then?'' @ nl @ nl @ ''hihello'' @ nl @ nl),
       PlaceholderMarkdown (''and then?'' @ nl @ nl @ ''hihello'' @ nl @ nl)],
      None)"
proof -
  have h1: "[''messages'' \<mapsto> two_turns] ''messages'' = Some two_turns" by simp
  have h2: "\<forall>m\<in>set two_turns. role m = ''user'' \<or> role m = ''assistant''"
    by (simp add: two_turns_def)
  have h3: "''and then?'' \<noteq> []" by simp
  have roles: "map role two_turns = [''user'', ''assistant'']"
    by (simp add: two_turns_def)
  show ?thesis
    using transcript_replayed_as_context
            [where ss = "[''messages'' \<mapsto> two_turns]" and ms = two_turns and
               agent_run = echo_agent and today = "''2024-01-01''" and
               no_attr = attribute_error and prompt = "''and then?''", OF h1 h2 h3]
          h1 h3 roles
    by (clarsimp simp: two_turns_def list_all2_Cons1 echo_agent_def)
qed

subsection \<open>The tools\<close>

text \<open>
  C5, as stated, fails.  No tool of the agent is called \<open>knowledge_lookup\<close> or
  \<open>web_search\<close>, and neither tool gives its result the shape the specification
  names: when the query engine answers with a text, the first tool returns that
  text, and when the search client answers with a text, so does the second.
\<close>

theorem spec_tool_contract_not_exposed:
  "''knowledge_lookup'' \<notin> set (map tool_name (tools search_agent)) \<and>
   ''web_search'' \<notin> set (map tool_name (tools search_agent)) \<and>
   snd (add_toolkit_information text_reader text_index text_engine json_text ()
          ''capital of France'') = Inr (JString ''Paris is the capital of France.'') \<and>
   \<not> spec_content_source (JString ''Paris is the capital of France.'') \<and>
   snd (get_search text_search () ''capital of France'' 0) =
     Inr (JString ''Paris - example.org'') \<and>
   \<not> spec_results_list (JString ''Paris - example.org'')"
  by (simp add: search_agent_def search_agent_0_def tool_def Agent_init_def
        add_toolkit_information_decl_def get_search_decl_def add_toolkit_information_def
        text_reader_def text_index_def text_engine_def get_search_def text_search_def
        spec_content_source_def spec_results_list_def)

text \<open>
  C5, amended.  The agent has exactly two tools, in this order:
  \<open>add_toolkit_information(query: str)\<close> and
  \<open>get_search(query: str, query_number: int)\<close>, each declared to return
  \<open>dict[str, Any]\<close>.  Once the documents are read and indexed, what the query
  engine returns or raises for the query is the result of the first tool, and the
  response is printed; what the search client returns or raises for the query and
  three results is the result of the second.  Neither result is given a shape.
\<close>

theorem search_agent_tools:
  "map (\<lambda>t. (tool_name t, parameters t, return_annotation t)) (tools search_agent) =
     [(''add_toolkit_information'', [(''query'', PyStr)], PyDict PyStr PyAny),
      (''get_search'', [(''query'', PyStr), (''query_number'', PyInt)], PyDict PyStr PyAny)] \<and>
   (\<forall>documents index.
      load_data ''custom_data'' = Inr documents \<and> from_documents documents = Inr index \<longrightarrow>
      add_toolkit_information load_data from_documents engine_query str_response ctx query =
        (case engine_query index query of
           Inl e \<Rightarrow> ([], Inl e)
         | Inr response \<Rightarrow> ([str_response response], Inr response))) \<and>
   snd (get_search get_search_context ctx' query' query_number) = get_search_context query' 3"
  by (simp add: search_agent_def search_agent_0_def tool_def Agent_init_def
        add_toolkit_information_decl_def get_search_decl_def add_toolkit_information_def
        get_search_def)

theorem search_agent_tools_witness:
  "text_reader ''custom_data'' = Inr [''Paris is the capital of France.''] \<and>
   text_index [''Paris is the capital of France.''] = Inr [''Paris is the capital of France.''] \<and>
   add_toolkit_information text_reader text_index text_engine json_text () ''capital of France'' =
     ([''Paris is the capital of France.''], Inr (JString ''Paris is the capital of France.'')) \<and>
   snd (get_search text_search () ''capital of France'' 0) =
     Inr (JString ''Paris - example.org'')"
  using search_agent_tools
          [where load_data = text_reader and from_documents = text_index and
             engine_query = text_engine and str_response = json_text and ctx = "()" and
             query = "''capital of France''" and get_search_context = text_search and
             ctx' = "()" and query' = "''capital of France''" and query_number = 0]
  by (simp add: text_reader_def text_index_def text_engine_def json_text_def text_search_def)

text \<open>
  C8, as stated, fails: when the provider answers a request for three results with
  four, \<open>get_search\<close> returns all four.
\<close>

theorem get_search_does_not_truncate:
  "snd (get_search four_results () ''paris'' 0) =
     Inr [(''example.org'', ''paris''), (''example.org'', ''paris''),
          (''example.org'', ''paris''), (''example.org'', ''paris'')]"
  by (simp add: get_search_def four_results_def numeral_eq_Suc)

text \<open>
  C8, amended.  The search tool has no \<open>max_results\<close> argument and reads none from
  its context: every call asks the provider for exactly three results, and what the
  provider returns or raises is the tool's result, unchanged.
\<close>

theorem get_search_requests_three:
  "snd (get_search get_search_context ctx query query_number) = get_search_context query 3"
  by (simp add: get_search_def)

subsection \<open>Start-up\<close>



subsection \<open>Session state\<close>

text \<open>
  C9.  For every session message list, the history built for the agent consists of
  exactly the messages whose role is \<open>user\<close> or \<open>assistant\<close>, in their original
  order, a user message as a \<open>UserPrompt\<close> and an assistant message as a
  \<open>ModelTextResponse\<close> of the same content; a message of any other role is left
  out, and the function returns normally.
\<close>

theorem get_message_history_keeps_user_assistant:
  "ss ''messages'' = Some ms \<Longrightarrow>
   get_message_history no_attr ss =
     Inr (map (\<lambda>m. if role m = ''user'' then UserPrompt (content m)
                    else ModelTextResponse (content m))
              (filter (\<lambda>m. role m = ''user'' \<or> role m = ''assistant'') ms))"
  by (simp add: get_message_history_def session_messages_def history_loop_acc)

theorem get_message_history_keeps_user_assistant_witness:
  "[''messages'' \<mapsto> mixed_roles] ''messages'' = Some mixed_roles \<and>
   get_message_history attribute_error [''messages'' \<mapsto> mixed_roles] =
     Inr [UserPrompt ''hi'', ModelTextResponse ''hello'']"
proof -
  have h: "[''messages'' \<mapsto> mixed_roles] ''messages'' = Some mixed_roles" by simp
  show ?thesis
    using get_message_history_keeps_user_assistant
            [where ss = "[''messages'' \<mapsto> mixed_roles]" and ms = mixed_roles and
               no_attr = attribute_error, OF h] h
    by (simp add: mixed_roles_def)
qed

text \<open>
  C10.  \<open>initialize_chat\<close> is idempotent.  A session state that already holds a
  message list is left as it is; one that holds none gets the empty list.
\<close>

theorem initialize_chat_idempotent:
  "initialize_chat (initialize_chat ss) = initialize_chat ss \<and>
   (\<forall>ms. ss ''messages'' = Some ms \<longrightarrow> initialize_chat ss = ss) \<and>
   (ss ''messages'' = None \<longrightarrow> initialize_chat ss = ss(''messages'' \<mapsto> []))"
  by (auto simp: initialize_chat_def)

theorem initialize_chat_idempotent_witness:
  "[''messages'' \<mapsto> two_turns] ''messages'' = Some two_turns \<and>
   initialize_chat [''messages'' \<mapsto> two_turns] = [''messages'' \<mapsto> two_turns] \<and>
   (Map.empty :: session_state) ''messages'' = None \<and>
   initialize_chat Map.empty = [''messages'' \<mapsto> []] \<and>
   initialize_chat (initialize_chat Map.empty) = initialize_chat Map.empty"
  using initialize_chat_idempotent [of "[''messages'' \<mapsto> two_turns]"]
        initialize_chat_idempotent [of Map.empty]
        initialize_chat_idempotent [of "[''messages'' \<mapsto> []]"]
  by simp

end
